theory Spec2Isabelle
  imports Complex_Main
begin

section \<open>Kheticulture: the job lifecycle of the My Jobs and Post Job pages\<close>

text \<open>
  The development embeds the handlers of \<^verbatim>\<open>MyJobsPage\<close>, \<^verbatim>\<open>PostJobPage\<close> and
  \<^verbatim>\<open>JobCard\<close>. A handler of a React component reads the component's state and the
  browser's \<^verbatim>\<open>localStorage\<close>, shows alerts and writes both; here it is a function from the
  state it reads to the alerts it shows and the state it leaves.
\<close>

subsection \<open>JavaScript numbers\<close>

text \<open>
  A \<^verbatim>\<open>number\<close> is \<open>NaN\<close> or a finite value; the infinities and the sign of zero are
  left out, so a parse or an operation that overflows is not covered. The handlers
  compare wages and counts, and subtract and divide millisecond timestamps. Every
  comparison with \<open>NaN\<close> is false, and \<^verbatim>\<open>!==\<close> is true of \<open>NaN\<close> and itself.
\<close>

datatype number = NaN | Num real

fun isNaN :: "number \<Rightarrow> bool" where
  "isNaN NaN = True"
| "isNaN (Num x) = False"

fun num_le :: "number \<Rightarrow> number \<Rightarrow> bool" where
  "num_le (Num x) (Num y) = (x \<le> y)"
| "num_le a b = False"

fun num_lt :: "number \<Rightarrow> number \<Rightarrow> bool" where
  "num_lt (Num x) (Num y) = (x < y)"
| "num_lt a b = False"

fun num_ge :: "number \<Rightarrow> number \<Rightarrow> bool" where
  "num_ge (Num x) (Num y) = (y \<le> x)"
| "num_ge a b = False"

fun num_gt :: "number \<Rightarrow> number \<Rightarrow> bool" where
  "num_gt (Num x) (Num y) = (y < x)"
| "num_gt a b = False"

fun strict_neq :: "number \<Rightarrow> number \<Rightarrow> bool" where
  "strict_neq (Num x) (Num y) = (x \<noteq> y)"
| "strict_neq a b = True"

text \<open>
  The result of an arithmetic operation is the double nearest to the exact result, ties
  going to the even significand: a double has 53 significant bits, so for
  \<open>2 ^ e \<le> \<bar>x\<bar> < 2 ^ (e + 1)\<close> the doubles around \<open>x\<close> are the multiples of \<open>2 ^ (e - 52)\<close>,
  and below \<open>2 ^ - 1022\<close> they are the multiples of \<open>2 ^ - 1074\<close>.
\<close>

definition roundTiesToEven :: "real \<Rightarrow> int" where
  "roundTiesToEven x =
     (let f = \<lfloor>x\<rfloor>
      in if x - real_of_int f < 1 / 2 then f
         else if 1 / 2 < x - real_of_int f then f + 1
         else if even f then f else f + 1)"

definition toDouble :: "real \<Rightarrow> real" where
  "toDouble x =
     (if x = 0 then 0
      else (let e = max \<lfloor>log 2 \<bar>x\<bar>\<rfloor> (- 1022);
                u = 2 powr real_of_int (e - 52)
            in real_of_int (roundTiesToEven (x / u)) * u))"

fun num_sub :: "number \<Rightarrow> number \<Rightarrow> number" where
  "num_sub (Num x) (Num y) = Num (toDouble (x - y))"
| "num_sub a b = NaN"

text \<open>Division is only used with the constant divisor \<open>1000 * 60 * 60\<close>.\<close>

fun num_div :: "number \<Rightarrow> number \<Rightarrow> number" where
  "num_div (Num x) (Num y) = (if y = 0 then NaN else Num (toDouble (x / y)))"
| "num_div a b = NaN"

fun math_ceil :: "number \<Rightarrow> number" where
  "math_ceil NaN = NaN"
| "math_ceil (Num x) = Num (of_int \<lceil>x\<rceil>)"

subsection \<open>Records of the application\<close>

datatype jobStatus = Open | Filled | InProgress | Completed

datatype applicationStatus = Pending | Accepted | Rejected

datatype userKind = Farmer | Worker

datatype durationKind = Hours | Days

record job =
  job_id :: string
  farmerId :: string
  farmerName :: string
  title :: string
  description :: string
  preferredDate :: string
  wage :: number
  duration :: number
  durationType :: durationKind
  location :: string
  requiredWorkers :: number
  acceptedWorkerIds :: "string list option"
  createdAt :: string
  status :: jobStatus

record application =
  app_id :: string
  jobId :: string
  workerId :: string
  app_status :: applicationStatus
  rejectedAt :: "string option"

record user =
  user_id :: string
  user_name :: string
  userType :: userKind

text \<open>
  The built-ins of the language and the clock, as the handlers call them:
  \<^verbatim>\<open>parseFloat\<close>, \<^verbatim>\<open>parseInt\<close>, \<^verbatim>\<open>new Date(s).getTime()\<close>,
  \<^verbatim>\<open>new Date().getTime()\<close>, \<^verbatim>\<open>Date.now().toString()\<close>,
  \<^verbatim>\<open>new Date().toISOString()\<close> and the conversion of a number to a string.
\<close>

record builtins =
  parseFloat :: "string \<Rightarrow> number"
  parseInt :: "string \<Rightarrow> number"
  getTime :: "string \<Rightarrow> number"
  now :: real
  nowString :: string
  nowISOString :: string
  numberToString :: "number \<Rightarrow> string"

subsection \<open>The store\<close>

text \<open>
  \<^verbatim>\<open>localStorage\<close> holds the jobs under the key \<^verbatim>\<open>kheticulture_jobs\<close> and the applications
  under \<^verbatim>\<open>kheticulture_applications\<close>, each a JSON array; the store is the two lists.
\<close>

record store =
  kheticulture_jobs :: "job list"
  kheticulture_applications :: "application list"

text \<open>
  Modelled from the spec: \<^verbatim>\<open>jobStorage.getJobs\<close> of \<^verbatim>\<open>utils/storage\<close> is not among the
  sources. Section 6 gives its contract (\<^verbatim>\<open>listJobs\<close>): it returns the stored jobs.
\<close>

definition getJobs :: "store \<Rightarrow> job list" where
  "getJobs s = kheticulture_jobs s"

text \<open>
  Modelled from the spec: \<^verbatim>\<open>applicationStorage.getApplications\<close> of \<^verbatim>\<open>utils/storage\<close> is
  not among the sources. Section 6 gives its contract (\<^verbatim>\<open>listApplications\<close>): it returns
  the stored applications.
\<close>

definition getApplications :: "store \<Rightarrow> application list" where
  "getApplications s = kheticulture_applications s"

text \<open>
  Modelled from the spec: \<^verbatim>\<open>jobStorage.saveJob\<close> of \<^verbatim>\<open>utils/storage\<close> is not among the
  sources. Section 6 gives its contract (\<^verbatim>\<open>putJob\<close>): an insert-or-replace of the whole
  record, by id.
\<close>

definition saveJob :: "job \<Rightarrow> store \<Rightarrow> store" where
  "saveJob j s =
     (if \<exists>k \<in> set (kheticulture_jobs s). job_id k = job_id j
      then s\<lparr>kheticulture_jobs := map (\<lambda>k. if job_id k = job_id j then j else k) (kheticulture_jobs s)\<rparr>
      else s\<lparr>kheticulture_jobs := kheticulture_jobs s @ [j]\<rparr>)"

text \<open>The fields \<^verbatim>\<open>handleSaveEdit\<close> passes to \<^verbatim>\<open>jobStorage.updateJob\<close>.\<close>

record jobPatch =
  patch_wage :: number
  patch_requiredWorkers :: number
  patch_status :: jobStatus

text \<open>
  Modelled from the spec: \<^verbatim>\<open>jobStorage.updateJob(id, {wage, requiredWorkers, status})\<close> of
  \<^verbatim>\<open>utils/storage\<close> is not among the sources. It is the whole-record replacement
  (section 6) of the job with that id by the job with the three fields set; section 4.1
  says that the write path enforces nothing of its own.
\<close>

definition applyPatch :: "jobPatch \<Rightarrow> job \<Rightarrow> job" where
  "applyPatch u j = j\<lparr>wage := patch_wage u, requiredWorkers := patch_requiredWorkers u,
                        status := patch_status u\<rparr>"

text \<open>
  Modelled from the spec: the write of \<^verbatim>\<open>jobStorage.updateJob\<close>, which is not among the
  sources, on the stored collection: every job with the id gets the three fields.
\<close>

definition updateJob :: "string \<Rightarrow> jobPatch \<Rightarrow> store \<Rightarrow> store" where
  "updateJob jid u s =
     s\<lparr>kheticulture_jobs := map (\<lambda>j. if job_id j = jid then applyPatch u j else j) (kheticulture_jobs s)\<rparr>"

subsection \<open>The job status manager\<close>

text \<open>\<^verbatim>\<open>job.acceptedWorkerIds?.length ?? 0\<close>, as \<^verbatim>\<open>JobCard\<close> reads the field.\<close>

definition acceptedLength :: "job \<Rightarrow> nat" where
  "acceptedLength j = (case acceptedWorkerIds j of None \<Rightarrow> 0 | Some ws \<Rightarrow> length ws)"

text \<open>
  Modelled from the spec: \<^verbatim>\<open>utils/jobStatusManager\<close> (\<^verbatim>\<open>JobStatusManager\<close>) is not among
  the sources. Section 4.4 gives the recompute of one job: a completed job is left as it
  is, an in-progress job is left as it is, any other job is filled when the accepted
  workers reach the required number and open otherwise.
\<close>

definition recomputeStatus :: "job \<Rightarrow> job" where
  "recomputeStatus j =
     (if status j = Completed then j
      else if status j = InProgress then j
      else if num_ge (Num (real (acceptedLength j))) (requiredWorkers j)
           then j\<lparr>status := Filled\<rparr>
           else j\<lparr>status := Open\<rparr>)"

text \<open>
  Modelled from the spec: \<^verbatim>\<open>JobStatusManager.updateAllJobStatuses\<close> is not among the
  sources. Section 4.4 gives the batch pass: it recomputes every job of the store in a
  single pass and returns the updated collection, which callers re-read from the store.
\<close>

definition updateAllJobStatuses :: "store \<Rightarrow> job list \<times> store" where
  "updateAllJobStatuses s =
     (let updated = map recomputeStatus (getJobs s)
      in (updated, s\<lparr>kheticulture_jobs := updated\<rparr>))"

text \<open>
  Modelled from the spec: \<^verbatim>\<open>JobStatusManager.checkStatusAfterWorkerAccepted\<close> is not
  among the sources. Section 4.4 has the status manager invoked after every edit on the
  job edited: the recompute of the job with the id.
\<close>

definition checkStatusAfterWorkerAccepted :: "string \<Rightarrow> store \<Rightarrow> store" where
  "checkStatusAfterWorkerAccepted jid s =
     s\<lparr>kheticulture_jobs := map (\<lambda>j. if job_id j = jid then recomputeStatus j else j) (kheticulture_jobs s)\<rparr>"

text \<open>Invariant I2 of the data model, on one job.\<close>

definition I2 :: "job \<Rightarrow> bool" where
  "I2 j = num_le (Num (real (acceptedLength j))) (requiredWorkers j)"

subsection \<open>The wage validator\<close>

text \<open>
  \<^verbatim>\<open>utils/wageValidation\<close> (\<^verbatim>\<open>WageValidator\<close>) is not among the sources;
  \<^verbatim>\<open>handleSaveEdit\<close> takes it as a parameter, with the arguments it passes.
\<close>

record wageValidation =
  canModify :: bool
  reason :: string

record wageValidator =
  validateWageChange :: "number \<Rightarrow> number \<Rightarrow> bool \<Rightarrow> nat \<Rightarrow> wageValidation"
  getWageErrorMessage :: "number \<Rightarrow> number \<Rightarrow> bool \<Rightarrow> nat \<Rightarrow> string"

subsection \<open>The state of \<^verbatim>\<open>MyJobsPage\<close>\<close>

record editForm =
  edit_wage :: string
  edit_requiredWorkers :: string
  edit_status :: jobStatus

record page =
  jobs :: "job list"
  applications :: "application list"
  editingJob :: "string option"
  editData :: editForm
  showDeleteConfirm :: "string option"

text \<open>The state a freshly mounted page starts from (the \<^verbatim>\<open>useState\<close> initial values).\<close>

definition initialPage :: page where
  "initialPage = \<lparr>jobs = [], applications = [], editingJob = None,
     editData = \<lparr>edit_wage = [], edit_requiredWorkers = [], edit_status = Open\<rparr>,
     showDeleteConfirm = None\<rparr>"

text \<open>
  The alerts of the page. Each stands for the message of the source:
  \<^item> \<open>CannotEditCompleted\<close>: Cannot edit completed jobs. The job has been closed.
  \<^item> \<open>InvalidWageAmount\<close>: Please enter a valid wage amount
  \<^item> \<open>WageLocked w w' n\<close>: Cannot change wage from \<open>w\<close> to \<open>w'\<close>. \<open>n\<close> worker(s)
    has/have already applied based on the original wage amount.
  \<^item> \<open>InvalidWorkerCount\<close>: Please enter a valid number of workers
  \<^item> \<open>ValidatorMessage m\<close>: the message \<open>m\<close> of the wage validator
  \<^item> \<open>BelowAccepted a\<close>: Cannot reduce workers below \<open>a\<close> as you have already accepted
    \<open>a\<close> worker(s)
  \<^item> \<open>ReduceWithApplications r r'\<close>: Cannot reduce the number of required workers from
    \<open>r\<close> to \<open>r'\<close> when there are applications. Workers applied based on the original job
    requirements.
  \<^item> \<open>CannotDeleteCompleted\<close>: Cannot delete completed jobs. The job has been closed and
    is now part of the historical record.
\<close>

datatype alert =
    CannotEditCompleted
  | InvalidWageAmount
  | WageLocked number number nat
  | InvalidWorkerCount
  | ValidatorMessage string
  | BelowAccepted nat
  | ReduceWithApplications number number
  | CannotDeleteCompleted

definition getJobApplications :: "page \<Rightarrow> string \<Rightarrow> application list" where
  "getJobApplications p jid = filter (\<lambda>app. jobId app = jid) (applications p)"

definition hasApplications :: "page \<Rightarrow> string \<Rightarrow> bool" where
  "hasApplications p jid = (length (getJobApplications p jid) > 0)"

definition getAcceptedApplicationsCount :: "page \<Rightarrow> string \<Rightarrow> nat" where
  "getAcceptedApplicationsCount p jid =
     length (filter (\<lambda>app. jobId app = jid \<and> app_status app = Accepted) (applications p))"

text \<open>
  \<^verbatim>\<open>loadData\<close>: the status pass first; a farmer then gets the jobs they own, and a worker
  gets their applications and the jobs applied to, and applications for jobs that no
  longer exist are dropped from the store. Only the worker's branch sets the page's
  applications.
\<close>

definition loadData :: "user option \<Rightarrow> page \<Rightarrow> store \<Rightarrow> page \<times> store" where
  "loadData usr p s =
     (case usr of
        None \<Rightarrow> (p, s)
      | Some u \<Rightarrow>
          (let (updatedJobs, s1) = updateAllJobStatuses s in
           if userType u = Farmer
           then (p\<lparr>jobs := filter (\<lambda>j. farmerId j = user_id u) updatedJobs\<rparr>, s1)
           else
             (let allApplications = getApplications s1;
                  userApplications = filter (\<lambda>app. workerId app = user_id u) allApplications;
                  appliedJobs = filter (\<lambda>j. \<exists>app \<in> set userApplications. jobId app = job_id j) updatedJobs;
                  validApplications =
                    filter (\<lambda>app. jobId app \<in> set (map job_id updatedJobs)) userApplications
              in if length validApplications \<noteq> length userApplications
                 then
                   (let otherUsersApps = filter (\<lambda>app. workerId app \<noteq> user_id u) (getApplications s1)
                    in (p\<lparr>jobs := appliedJobs, applications := validApplications\<rparr>,
                        s1\<lparr>kheticulture_applications := otherUsersApps @ validApplications\<rparr>))
                 else (p\<lparr>jobs := appliedJobs, applications := userApplications\<rparr>, s1))))"

text \<open>\<^verbatim>\<open>handleEditJob\<close>: opens the edit form of a job, unless the job is completed.\<close>

definition handleEditJob :: "builtins \<Rightarrow> string \<Rightarrow> page \<Rightarrow> alert list \<times> page" where
  "handleEditJob env jid p =
     (case find (\<lambda>j. job_id j = jid) (jobs p) of
        None \<Rightarrow> ([], p)
      | Some j \<Rightarrow>
          if status j = Completed then ([CannotEditCompleted], p)
          else ([], p\<lparr>editData := \<lparr>edit_wage = numberToString env (wage j),
                                     edit_requiredWorkers = numberToString env (requiredWorkers j),
                                     edit_status = status j\<rparr>,
                       editingJob := Some jid\<rparr>))"

text \<open>
  \<^verbatim>\<open>handleSaveEdit\<close>, check by check in the order of the source. An empty
  \<^verbatim>\<open>editingJob\<close> string is falsy like \<^verbatim>\<open>null\<close>. After the write, the status of the job
  is checked and the page reloads.
\<close>

definition handleSaveEdit ::
  "wageValidator \<Rightarrow> builtins \<Rightarrow> user option \<Rightarrow> page \<Rightarrow> store \<Rightarrow> alert list \<times> page \<times> store" where
  "handleSaveEdit v env usr p s =
     (case editingJob p of
        None \<Rightarrow> ([], p, s)
      | Some e \<Rightarrow>
          if e = [] then ([], p, s)
          else
            (case find (\<lambda>j. job_id j = e) (jobs p) of
               None \<Rightarrow> ([], p, s)
             | Some j \<Rightarrow>
                 if status j = Completed then ([CannotEditCompleted], p\<lparr>editingJob := None\<rparr>, s)
                 else
                   (let jobApplications = getJobApplications p e;
                        hasAnyApplications = (length jobApplications > 0);
                        acceptedCount = getAcceptedApplicationsCount p e;
                        newWage = parseFloat env (edit_wage (editData p))
                    in if isNaN newWage \<or> num_le newWage (Num 0) then ([InvalidWageAmount], p, s)
                       else if hasAnyApplications \<and> strict_neq newWage (wage j)
                       then ([WageLocked (wage j) newWage (length jobApplications)], p, s)
                       else
                         (let newRequiredWorkers = parseInt env (edit_requiredWorkers (editData p))
                          in if isNaN newRequiredWorkers \<or> num_le newRequiredWorkers (Num 0)
                             then ([InvalidWorkerCount], p, s)
                             else
                               (let wageValidation =
                                      validateWageChange v (wage j) newWage hasAnyApplications acceptedCount
                                in if \<not> canModify wageValidation \<and> strict_neq newWage (wage j)
                                   then
                                     (let errorMessage =
                                            getWageErrorMessage v (wage j) newWage hasAnyApplications
                                              (length jobApplications)
                                      in ([ValidatorMessage
                                             (if errorMessage \<noteq> [] then errorMessage
                                              else reason wageValidation)], p, s))
                                   else if num_lt newRequiredWorkers (Num (real acceptedCount))
                                   then ([BelowAccepted acceptedCount], p, s)
                                   else if hasAnyApplications
                                          \<and> num_lt newRequiredWorkers (requiredWorkers j)
                                   then ([ReduceWithApplications (requiredWorkers j) newRequiredWorkers],
                                         p, s)
                                   else
                                     (let s1 = updateJob e
                                                 \<lparr>patch_wage = newWage,
                                                  patch_requiredWorkers = newRequiredWorkers,
                                                  patch_status = edit_status (editData p)\<rparr> s;
                                          s2 = checkStatusAfterWorkerAccepted e s1;
                                          (p', s3) = loadData usr (p\<lparr>editingJob := None\<rparr>) s2
                                      in ([], p', s3)))))))"

text \<open>
  \<^verbatim>\<open>handleDeleteJob\<close> asks for the confirmation of a deletion, unless the page's copy
  of the job is completed; \<^verbatim>\<open>confirmDeleteJob\<close> deletes the job and the applications
  that refer to it from the store, closes the dialog and reloads the page.
\<close>

definition handleDeleteJob :: "string \<Rightarrow> page \<Rightarrow> alert list \<times> page" where
  "handleDeleteJob jid p =
     (case find (\<lambda>j. job_id j = jid) (jobs p) of
        Some j \<Rightarrow>
          if status j = Completed then ([CannotDeleteCompleted], p)
          else ([], p\<lparr>showDeleteConfirm := Some jid\<rparr>)
      | None \<Rightarrow> ([], p\<lparr>showDeleteConfirm := Some jid\<rparr>))"

definition confirmDeleteJob :: "user option \<Rightarrow> page \<Rightarrow> store \<Rightarrow> page \<times> store" where
  "confirmDeleteJob usr p s =
     (case showDeleteConfirm p of
        None \<Rightarrow> (p, s)
      | Some d \<Rightarrow>
          if d = [] then (p, s)
          else
            (let allJobs = getJobs s;
                 updatedJobs = filter (\<lambda>j. job_id j \<noteq> d) allJobs;
                 s1 = s\<lparr>kheticulture_jobs := updatedJobs\<rparr>;
                 allApplications = getApplications s1;
                 updatedApplications = filter (\<lambda>app. jobId app \<noteq> d) allApplications;
                 s2 = s1\<lparr>kheticulture_applications := updatedApplications\<rparr>
             in loadData usr (p\<lparr>showDeleteConfirm := None\<rparr>) s2))"

text \<open>
  The worker's view of a rejected application. \<^verbatim>\<open>find\<close> takes the first application
  of the page for the job; a missing or empty \<^verbatim>\<open>rejectedAt\<close> is falsy.
\<close>

definition getApplicationStatus :: "page \<Rightarrow> string \<Rightarrow> applicationStatus" where
  "getApplicationStatus p jid =
     (case find (\<lambda>app. jobId app = jid) (applications p) of
        None \<Rightarrow> Pending
      | Some app \<Rightarrow> app_status app)"

definition canReapply :: "builtins \<Rightarrow> page \<Rightarrow> string \<Rightarrow> bool" where
  "canReapply env p jid =
     (case find (\<lambda>app. jobId app = jid) (applications p) of
        None \<Rightarrow> False
      | Some app \<Rightarrow>
          (case rejectedAt app of
             None \<Rightarrow> False
           | Some ts \<Rightarrow>
               if app_status app \<noteq> Rejected \<or> ts = [] then False
               else
                 (let rejectedTime = getTime env ts;
                      hoursPassed = num_div (num_sub (Num (now env)) rejectedTime) (Num (1000 * 60 * 60))
                  in num_ge hoursPassed (Num 24))))"

definition getTimeUntilReapply :: "builtins \<Rightarrow> page \<Rightarrow> string \<Rightarrow> string" where
  "getTimeUntilReapply env p jid =
     (case find (\<lambda>app. jobId app = jid) (applications p) of
        None \<Rightarrow> []
      | Some app \<Rightarrow>
          (case rejectedAt app of
             None \<Rightarrow> []
           | Some ts \<Rightarrow>
               if app_status app \<noteq> Rejected \<or> ts = [] then []
               else
                 (let rejectedTime = getTime env ts;
                      hoursPassed = num_div (num_sub (Num (now env)) rejectedTime) (Num (1000 * 60 * 60));
                      hoursLeft = math_ceil (num_sub (Num 24) hoursPassed)
                  in if num_le hoursLeft (Num 0) then []
                     else ''Can reapply in '' @ numberToString env hoursLeft @ '' hours'')))"

subsection \<open>\<^verbatim>\<open>JobCard\<close>\<close>

text \<open>
  The properties of the card that \<^verbatim>\<open>canApplyToJob\<close> reads; \<^verbatim>\<open>canApply\<close> defaults to
  true and \<^verbatim>\<open>applicationStatus\<close> to \<^verbatim>\<open>null\<close>.
\<close>

record jobCardProps =
  card_job :: job
  canApply :: bool
  applicationStatus :: "applicationStatus option"

definition canApplyToJob :: "jobCardProps \<Rightarrow> bool" where
  "canApplyToJob c =
     (if \<not> canApply c \<or> applicationStatus c \<noteq> None then False
      else status (card_job c) = Open)"

subsection \<open>\<^verbatim>\<open>PostJobPage\<close>\<close>

record postForm =
  form_title :: string
  form_description :: string
  form_preferredDate :: string
  form_wage :: string
  form_duration :: string
  form_durationType :: durationKind
  form_location :: string
  form_requiredWorkers :: string

text \<open>
  \<^verbatim>\<open>String.prototype.trim\<close> on the characters a \<open>char\<close> can hold: tab, line feed,
  vertical tab, form feed, carriage return, space and the no-break space.
\<close>

definition isWhiteSpace :: "char \<Rightarrow> bool" where
  "isWhiteSpace c = (c \<in> set [CHR 0x09, CHR 0x0A, CHR 0x0B, CHR 0x0C, CHR 0x0D, CHR 0x20, CHR 0xA0])"

definition trim :: "string \<Rightarrow> string" where
  "trim str = rev (dropWhile isWhiteSpace (rev (dropWhile isWhiteSpace str)))"

text \<open>
  \<^verbatim>\<open>handleSubmit\<close> returns the error it sets (empty on success) and the store it
  leaves. An empty field is falsy; a field that is neither empty nor a number parses to
  \<open>NaN\<close>, which no comparison rejects. The write is total here, so the \<^verbatim>\<open>catch\<close> of a
  failing write has no branch.
\<close>

definition handleSubmit :: "builtins \<Rightarrow> user option \<Rightarrow> postForm \<Rightarrow> store \<Rightarrow> string \<times> store" where
  "handleSubmit env usr f s =
     (case usr of
        None \<Rightarrow> (''Only farmers can post jobs'', s)
      | Some u \<Rightarrow>
          if userType u \<noteq> Farmer then (''Only farmers can post jobs'', s)
          else if trim (form_title f) = [] \<or> trim (form_description f) = []
                  \<or> trim (form_location f) = []
          then (''Please fill in all required fields'', s)
          else if form_wage f = [] \<or> num_le (parseFloat env (form_wage f)) (Num 0)
          then (''Please enter a valid wage amount (minimum NPR.1)'', s)
          else
            (let wageAmount = parseFloat env (form_wage f)
             in if num_gt wageAmount (Num 100000)
                then (''Wage amount seems too high. Please enter a reasonable amount.'', s)
                else if form_duration f = [] \<or> num_le (parseInt env (form_duration f)) (Num 0)
                then (''Please enter a valid duration'', s)
                else if form_requiredWorkers f = []
                        \<or> num_le (parseInt env (form_requiredWorkers f)) (Num 0)
                then (''Please enter a valid number of workers needed'', s)
                else
                  (let j = \<lparr>job_id = nowString env,
                            farmerId = user_id u,
                            farmerName = user_name u,
                            title = trim (form_title f),
                            description = trim (form_description f),
                            preferredDate = form_preferredDate f,
                            wage = parseFloat env (form_wage f),
                            duration = parseInt env (form_duration f),
                            durationType = form_durationType f,
                            location = trim (form_location f),
                            requiredWorkers = parseInt env (form_requiredWorkers f),
                            acceptedWorkerIds = Some [],
                            createdAt = nowISOString env,
                            status = Open\<rparr>
                   in ([], saveJob j s))))"

section \<open>Sample data\<close>

text \<open>
  Modelled from the spec: a wage validator that follows section 4.1 (allowed when nobody
  has applied, allowed when the wage is unchanged, rejected when somebody has applied
  and the wage differs), with the arguments \<^verbatim>\<open>handleSaveEdit\<close> passes. It instantiates
  the validator in the worked scenarios below; the theorems hold for every validator.
\<close>

definition specWageValidator :: wageValidator where
  "specWageValidator =
     \<lparr>validateWageChange = (\<lambda>currentWage newWage hasAnyApplications acceptedCount.
          if hasAnyApplications \<and> strict_neq newWage currentWage
          then \<lparr>canModify = False, reason = ''Wage is locked: workers have already applied''\<rparr>
          else \<lparr>canModify = True, reason = []\<rparr>),
      getWageErrorMessage = (\<lambda>currentWage newWage hasAnyApplications applicationCount.
          if hasAnyApplications \<and> strict_neq newWage currentWage
          then ''Wage is locked: workers have already applied''
          else [])\<rparr>"

text \<open>The decimal digits of a natural number, as a number is converted to a string.\<close>

fun natToString :: "nat \<Rightarrow> string" where
  "natToString n =
     (if n < 10 then [''0123456789'' ! n]
      else natToString (n div 10) @ [''0123456789'' ! (n mod 10)])"

declare natToString.simps [simp del]

text \<open>
  The built-ins at the time 2024-01-01T01:30:00Z (1704072600000 ms), ninety minutes
  after the later rejection of the scenarios: the parsers on the strings typed in the
  scenarios, the dates of the scenarios, and the conversion to a string on \<open>NaN\<close> and on
  whole numbers (no other number occurs in the scenarios).
\<close>

definition sampleEnv :: builtins where
  "sampleEnv =
     \<lparr>parseFloat = (\<lambda>str. if str = ''0'' then Num 0 else if str = ''1'' then Num 1
                       else if str = ''2'' then Num 2 else if str = ''3'' then Num 3
                       else if str = ''8'' then Num 8 else if str = ''500'' then Num 500
                       else if str = ''600'' then Num 600
                       else if str = ''150000'' then Num 150000 else NaN),
      parseInt = (\<lambda>str. if str = ''0'' then Num 0 else if str = ''1'' then Num 1
                     else if str = ''2'' then Num 2 else if str = ''3'' then Num 3
                     else if str = ''8'' then Num 8 else if str = ''500'' then Num 500
                     else if str = ''600'' then Num 600
                     else if str = ''150000'' then Num 150000 else NaN),
      getTime = (\<lambda>str. if str = ''2023-12-31T00:00:00.000Z'' then Num 1703980800000
                    else if str = ''2024-01-01T00:00:00.000Z'' then Num 1704067200000
                    else NaN),
      now = 1704072600000,
      nowString = ''1704072600000'',
      nowISOString = ''2024-01-01T01:30:00.000Z'',
      numberToString = (\<lambda>n. case n of
                             NaN \<Rightarrow> ''NaN''
                           | Num x \<Rightarrow>
                               if x = real_of_int \<lfloor>x\<rfloor>
                               then (if 0 \<le> x then natToString (nat \<lfloor>x\<rfloor>)
                                     else ''-'' @ natToString (nat (- \<lfloor>x\<rfloor>)))
                               else [])\<rparr>"

definition farmerF :: user where
  "farmerF = \<lparr>user_id = ''F1'', user_name = ''Sita'', userType = Farmer\<rparr>"

text \<open>The job of scenario A: two workers required, wage 500, nobody accepted yet.\<close>

definition jobA :: job where
  "jobA = \<lparr>job_id = ''J1'', farmerId = ''F1'', farmerName = ''Sita'', title = ''Harvest'',
            description = ''Wheat harvesting'', preferredDate = ''2024-01-10'', wage = Num 500,
            duration = Num 8, durationType = Hours, location = ''Pokhara'',
            requiredWorkers = Num 2, acceptedWorkerIds = Some [],
            createdAt = ''2023-12-30T00:00:00.000Z'', status = Open\<rparr>"

text \<open>The same job after scenario B (both workers accepted), and once completed.\<close>

definition jobB :: job where
  "jobB = jobA\<lparr>acceptedWorkerIds := Some [''W1'', ''W2''], status := Filled\<rparr>"

definition jobDone :: job where
  "jobDone = jobB\<lparr>status := Completed\<rparr>"

definition jobK :: job where
  "jobK = \<lparr>job_id = ''J2'', farmerId = ''F1'', farmerName = ''Sita'', title = ''Irrigation'',
            description = ''Irrigation setup'', preferredDate = ''2024-02-01'', wage = Num 600,
            duration = Num 2, durationType = Days, location = ''Pokhara'',
            requiredWorkers = Num 1, acceptedWorkerIds = Some [],
            createdAt = ''2023-12-31T00:00:00.000Z'', status = Open\<rparr>"

definition appPending :: application where
  "appPending = \<lparr>app_id = ''A0'', jobId = ''J1'', workerId = ''W1'', app_status = Pending,
                  rejectedAt = None\<rparr>"

definition appA1 :: application where
  "appA1 = \<lparr>app_id = ''A1'', jobId = ''J1'', workerId = ''W1'', app_status = Accepted,
             rejectedAt = None\<rparr>"

definition appA2 :: application where
  "appA2 = \<lparr>app_id = ''A2'', jobId = ''J1'', workerId = ''W2'', app_status = Accepted,
             rejectedAt = None\<rparr>"

definition appRejected :: application where
  "appRejected = \<lparr>app_id = ''A3'', jobId = ''J1'', workerId = ''W3'', app_status = Rejected,
                   rejectedAt = Some ''2024-01-01T00:00:00.000Z''\<rparr>"

definition appK :: application where
  "appK = \<lparr>app_id = ''A4'', jobId = ''J2'', workerId = ''W1'', app_status = Pending,
            rejectedAt = None\<rparr>"

definition sampleStore :: store where
  "sampleStore = \<lparr>kheticulture_jobs = [jobB, jobK],
                   kheticulture_applications = [appA1, appK, appA2]\<rparr>"

text \<open>A page with the edit form of one job open and the given fields typed in.\<close>

definition editingPage :: "job \<Rightarrow> application list \<Rightarrow> string \<Rightarrow> string \<Rightarrow> jobStatus \<Rightarrow> page" where
  "editingPage j apps w n st =
     \<lparr>jobs = [j], applications = apps, editingJob = Some (job_id j),
      editData = \<lparr>edit_wage = w, edit_requiredWorkers = n, edit_status = st\<rparr>,
      showDeleteConfirm = None\<rparr>"

text \<open>
  A worker who was rejected for job J1 on 2023-12-31, applied again after the cooldown
  and was rejected again on 2024-01-01 at 00:00, and their page once it has loaded.
\<close>

definition workerW :: user where
  "workerW = \<lparr>user_id = ''W3'', user_name = ''Hari'', userType = Worker\<rparr>"

definition appRejectedFirst :: application where
  "appRejectedFirst = \<lparr>app_id = ''A5'', jobId = ''J1'', workerId = ''W3'', app_status = Rejected,
                        rejectedAt = Some ''2023-12-31T00:00:00.000Z''\<rparr>"

definition workerStore :: store where
  "workerStore = \<lparr>kheticulture_jobs = [jobA],
                   kheticulture_applications = [appRejectedFirst, appRejected]\<rparr>"

definition workerPage :: page where
  "workerPage = fst (loadData (Some workerW) initialPage workerStore)"

text \<open>The page of a worker with the one application rejected on 2024-01-01 at 00:00.\<close>

definition workerPageOnce :: page where
  "workerPageOnce =
     fst (loadData (Some workerW) initialPage
            \<lparr>kheticulture_jobs = [jobA], kheticulture_applications = [appRejected]\<rparr>)"

definition wageTooHighForm :: postForm where
  "wageTooHighForm =
     \<lparr>form_title = ''Harvest'', form_description = ''Wheat harvesting'',
      form_preferredDate = ''2024-01-10'', form_wage = ''150000'', form_duration = ''8'',
      form_durationType = Hours, form_location = ''Pokhara'', form_requiredWorkers = ''2''\<rparr>"

text \<open>
  A farmer's session on the store above: the page is mounted and loads, the farmer opens
  the edit form of job J1 and types 1 into the worker count.
\<close>

definition farmerPage :: page where
  "farmerPage = fst (loadData (Some farmerF) initialPage sampleStore)"

definition farmerStore :: store where
  "farmerStore = snd (loadData (Some farmerF) initialPage sampleStore)"

definition farmerEditing :: page where
  "farmerEditing =
     (let opened = snd (handleEditJob sampleEnv ''J1'' farmerPage)
      in opened\<lparr>editData := (editData opened)\<lparr>edit_requiredWorkers := ''1''\<rparr>\<rparr>)"

text \<open>The same session with 600 typed into the wage instead.\<close>

definition farmerRaisingWage :: page where
  "farmerRaisingWage =
     (let opened = snd (handleEditJob sampleEnv ''J1'' farmerPage)
      in opened\<lparr>editData := (editData opened)\<lparr>edit_wage := ''600''\<rparr>\<rparr>)"

text \<open>
  Scenario D in a farmer's session: the store holds job J1 with three required workers
  and one pending application; the page loads, the farmer opens the edit form of the
  job and types 2 into the worker count.
\<close>

definition scenarioDStore :: store where
  "scenarioDStore = \<lparr>kheticulture_jobs = [jobA\<lparr>requiredWorkers := Num 3\<rparr>],
                      kheticulture_applications = [appPending]\<rparr>"

definition scenarioDLoaded :: "page \<times> store" where
  "scenarioDLoaded = loadData (Some farmerF) initialPage scenarioDStore"

definition scenarioDEditing :: page where
  "scenarioDEditing =
     (let opened = snd (handleEditJob sampleEnv ''J1'' (fst scenarioDLoaded))
      in opened\<lparr>editData := (editData opened)\<lparr>edit_requiredWorkers := ''2''\<rparr>\<rparr>)"

text \<open>
  A farmer's session that ends a job and deletes it: on the loaded page the farmer opens
  the edit form of job J1 and selects the status completed, asks for the deletion of
  the job, which opens the confirmation dialog, saves the form, and confirms the
  deletion.
\<close>

definition closingForm :: page where
  "closingForm =
     (let opened = snd (handleEditJob sampleEnv ''J1'' farmerPage)
      in opened\<lparr>editData := (editData opened)\<lparr>edit_status := Completed\<rparr>\<rparr>)"

definition closingAsked :: "alert list \<times> page" where
  "closingAsked = handleDeleteJob ''J1'' closingForm"

definition closingSaved :: "alert list \<times> page \<times> store" where
  "closingSaved = handleSaveEdit specWageValidator sampleEnv (Some farmerF) (snd closingAsked) farmerStore"

definition closingConfirmed :: "page \<times> store" where
  "closingConfirmed = confirmDeleteJob (Some farmerF) (fst (snd closingSaved)) (snd (snd closingSaved))"

section \<open>Properties\<close>

subsection \<open>Auxiliary facts\<close>

lemma recomputeStatus_idem: "recomputeStatus (recomputeStatus j) = recomputeStatus j"
  by (simp add: recomputeStatus_def acceptedLength_def)

lemma job_id_recomputeStatus [simp]: "job_id (recomputeStatus k) = job_id k"
  by (simp add: recomputeStatus_def)

lemma requiredWorkers_recomputeStatus [simp]:
  "requiredWorkers (recomputeStatus k) = requiredWorkers k"
  by (simp add: recomputeStatus_def)

lemma wage_recomputeStatus [simp]: "wage (recomputeStatus k) = wage k"
  by (simp add: recomputeStatus_def)

lemma acceptedWorkerIds_recomputeStatus [simp]:
  "acceptedWorkerIds (recomputeStatus k) = acceptedWorkerIds k"
  by (simp add: recomputeStatus_def)

lemma job_id_applyPatch [simp]: "job_id (applyPatch u k) = job_id k"
  by (simp add: applyPatch_def)

text \<open>The reload of a farmer's page: the jobs are re-read, the applications are not.\<close>

lemma loadData_farmer:
  "userType u = Farmer \<Longrightarrow>
   loadData (Some u) p s =
     (p\<lparr>jobs := filter (\<lambda>j. farmerId j = user_id u) (map recomputeStatus (kheticulture_jobs s))\<rparr>,
      s\<lparr>kheticulture_jobs := map recomputeStatus (kheticulture_jobs s)\<rparr>)"
  by (simp add: loadData_def updateAllJobStatuses_def getJobs_def Let_def)

text \<open>Every load leaves the stored jobs as the status pass leaves them.\<close>

lemma loadData_reconciles:
  "\<forall>k \<in> set (kheticulture_jobs (snd (loadData (Some u) p s))). recomputeStatus k = k"
  by (auto simp: loadData_def updateAllJobStatuses_def getJobs_def Let_def recomputeStatus_idem)

lemma loadData_store_jobs:
  "kheticulture_jobs (snd (loadData usr p s)) =
     (case usr of None \<Rightarrow> kheticulture_jobs s | Some u \<Rightarrow> map recomputeStatus (kheticulture_jobs s))"
  by (simp add: loadData_def updateAllJobStatuses_def getJobs_def Let_def split: option.splits)

lemma saved_store_requiredWorkers:
  "map requiredWorkers
     (kheticulture_jobs (snd (loadData usr q (checkStatusAfterWorkerAccepted e (updateJob e u s)))))
   = map (\<lambda>k. if job_id k = e then patch_requiredWorkers u else requiredWorkers k) (kheticulture_jobs s)"
  by (simp add: loadData_store_jobs checkStatusAfterWorkerAccepted_def updateJob_def applyPatch_def
        o_def split: option.splits)

lemma saved_store_wage:
  "map wage
     (kheticulture_jobs (snd (loadData usr q (checkStatusAfterWorkerAccepted e (updateJob e u s)))))
   = map (\<lambda>k. if job_id k = e then patch_wage u else wage k) (kheticulture_jobs s)"
  by (simp add: loadData_store_jobs checkStatusAfterWorkerAccepted_def updateJob_def applyPatch_def
        o_def split: option.splits)

lemma acceptedLength_recomputeStatus [simp]: "acceptedLength (recomputeStatus k) = acceptedLength k"
  by (simp add: acceptedLength_def)

lemma acceptedLength_applyPatch [simp]: "acceptedLength (applyPatch u k) = acceptedLength k"
  by (simp add: acceptedLength_def applyPatch_def)

lemma requiredWorkers_applyPatch [simp]: "requiredWorkers (applyPatch u k) = patch_requiredWorkers u"
  by (simp add: applyPatch_def)

lemma I2_recomputeStatus: "I2 (recomputeStatus j) = I2 j"
  by (simp add: I2_def)

lemma loadData_farmer_applications:
  "userType u = Farmer \<Longrightarrow> applications (fst (loadData (Some u) p s)) = applications p"
  by (simp add: loadData_farmer)

lemma farmer_page_sees_no_applications:
  assumes "userType u = Farmer"
  shows "getJobApplications (fst (loadData (Some u) initialPage s)) jid = []"
    and "getAcceptedApplicationsCount (fst (loadData (Some u) initialPage s)) jid = 0"
  using assms
  by (simp_all add: loadData_farmer getJobApplications_def getAcceptedApplicationsCount_def
        initialPage_def)

lemma saved_store_jobs:
  "kheticulture_jobs (snd (loadData usr q (checkStatusAfterWorkerAccepted e (updateJob e u s))))
   = map (\<lambda>k. case usr of
                 None \<Rightarrow> (if job_id k = e then recomputeStatus (applyPatch u k) else k)
               | Some x \<Rightarrow> recomputeStatus (if job_id k = e then recomputeStatus (applyPatch u k) else k))
       (kheticulture_jobs s)"
  by (simp add: loadData_store_jobs checkStatusAfterWorkerAccepted_def updateJob_def o_def
        split: option.splits)

lemma saved_store_job:
  assumes "k \<in> set (kheticulture_jobs
              (snd (loadData usr q (checkStatusAfterWorkerAccepted e (updateJob e u s)))))"
    and "job_id k = e"
  shows "requiredWorkers k = patch_requiredWorkers u
       \<and> (\<exists>k0 \<in> set (kheticulture_jobs s). job_id k0 = e \<and> acceptedLength k = acceptedLength k0)"
proof -
  from assms(1) obtain k0 where k0: "k0 \<in> set (kheticulture_jobs s)"
    and k: "k = (case usr of
                 None \<Rightarrow> (if job_id k0 = e then recomputeStatus (applyPatch u k0) else k0)
               | Some x \<Rightarrow> recomputeStatus (if job_id k0 = e then recomputeStatus (applyPatch u k0) else k0))"
    unfolding saved_store_jobs by auto
  from k have "job_id k = job_id k0"
    by (simp split: option.splits if_splits)
  with assms(2) have e: "job_id k0 = e" by simp
  with k have "requiredWorkers k = patch_requiredWorkers u" "acceptedLength k = acceptedLength k0"
    by (simp_all split: option.splits)
  with k0 e show ?thesis by blast
qed

text \<open>The checks of \<^verbatim>\<open>handleSaveEdit\<close> once the job is found and not completed.\<close>

lemma handleSaveEdit_checks:
  assumes "editingJob p = Some e" and "e \<noteq> []"
    and "find (\<lambda>k. job_id k = e) (jobs p) = Some j"
    and "status j \<noteq> Completed"
  shows "handleSaveEdit v env usr p s =
     (if isNaN (parseFloat env (edit_wage (editData p)))
         \<or> num_le (parseFloat env (edit_wage (editData p))) (Num 0)
      then ([InvalidWageAmount], p, s)
      else if length (getJobApplications p e) > 0
              \<and> strict_neq (parseFloat env (edit_wage (editData p))) (wage j)
      then ([WageLocked (wage j) (parseFloat env (edit_wage (editData p)))
               (length (getJobApplications p e))], p, s)
      else if isNaN (parseInt env (edit_requiredWorkers (editData p)))
              \<or> num_le (parseInt env (edit_requiredWorkers (editData p))) (Num 0)
      then ([InvalidWorkerCount], p, s)
      else if \<not> canModify (validateWageChange v (wage j) (parseFloat env (edit_wage (editData p)))
                   (length (getJobApplications p e) > 0) (getAcceptedApplicationsCount p e))
              \<and> strict_neq (parseFloat env (edit_wage (editData p))) (wage j)
      then ([ValidatorMessage
               (if getWageErrorMessage v (wage j) (parseFloat env (edit_wage (editData p)))
                     (length (getJobApplications p e) > 0) (length (getJobApplications p e)) \<noteq> []
                then getWageErrorMessage v (wage j) (parseFloat env (edit_wage (editData p)))
                     (length (getJobApplications p e) > 0) (length (getJobApplications p e))
                else reason (validateWageChange v (wage j) (parseFloat env (edit_wage (editData p)))
                   (length (getJobApplications p e) > 0) (getAcceptedApplicationsCount p e)))], p, s)
      else if num_lt (parseInt env (edit_requiredWorkers (editData p)))
                (Num (real (getAcceptedApplicationsCount p e)))
      then ([BelowAccepted (getAcceptedApplicationsCount p e)], p, s)
      else if length (getJobApplications p e) > 0
              \<and> num_lt (parseInt env (edit_requiredWorkers (editData p))) (requiredWorkers j)
      then ([ReduceWithApplications (requiredWorkers j)
               (parseInt env (edit_requiredWorkers (editData p)))], p, s)
      else ([], loadData usr (p\<lparr>editingJob := None\<rparr>)
                  (checkStatusAfterWorkerAccepted e
                     (updateJob e \<lparr>patch_wage = parseFloat env (edit_wage (editData p)),
                                   patch_requiredWorkers = parseInt env (edit_requiredWorkers (editData p)),
                                   patch_status = edit_status (editData p)\<rparr> s))))"
  using assms by (simp add: handleSaveEdit_def Let_def split_def)

text \<open>Facts about the sample data.\<close>

lemma sample_job_ids: "job_id jobA = ''J1''" "job_id jobB = ''J1''" "job_id jobDone = ''J1''"
  "job_id jobK = ''J2''"
  by (simp_all add: jobA_def jobB_def jobDone_def jobK_def)

lemma sample_job_status: "status jobA = Open" "status jobB = Filled" "status jobDone = Completed"
  "status jobK = Open"
  by (simp_all add: jobA_def jobB_def jobDone_def jobK_def)

lemma sample_job_fields: "wage jobB = Num 500" "requiredWorkers jobB = Num 2"
  "acceptedWorkerIds jobB = Some [''W1'', ''W2'']" "farmerId jobB = ''F1''" "farmerId jobK = ''F1''"
  by (simp_all add: jobA_def jobB_def jobK_def)

lemma sample_application_jobs: "jobId appPending = ''J1''" "jobId appA1 = ''J1''"
  "jobId appA2 = ''J1''" "jobId appRejected = ''J1''" "jobId appK = ''J2''"
  by (simp_all add: appPending_def appA1_def appA2_def appRejected_def appK_def)

lemma sample_jobs_reconciled: "recomputeStatus jobB = jobB" "recomputeStatus jobK = jobK"
  by (simp_all add: recomputeStatus_def acceptedLength_def jobB_def jobA_def jobK_def)

lemma farmerPage_eq: "farmerPage = initialPage\<lparr>jobs := [jobB, jobK]\<rparr>"
  by (simp add: farmerPage_def loadData_farmer farmerF_def sampleStore_def sample_jobs_reconciled
        sample_job_fields)

lemma farmerStore_eq: "farmerStore = sampleStore"
  by (simp add: farmerStore_def loadData_farmer farmerF_def sampleStore_def sample_jobs_reconciled)

lemma sample_number_strings:
  "numberToString sampleEnv (Num 500) = ''500''" "numberToString sampleEnv (Num 600) = ''600''"
  "numberToString sampleEnv (Num 1) = ''1''" "numberToString sampleEnv (Num 2) = ''2''"
  "numberToString sampleEnv (Num 3) = ''3''" "numberToString sampleEnv (Num 23) = ''23''"
  by (simp_all add: sampleEnv_def natToString.simps)

lemma farmerEditing_eq:
  "farmerEditing = \<lparr>jobs = [jobB, jobK], applications = [], editingJob = Some ''J1'',
       editData = \<lparr>edit_wage = ''500'', edit_requiredWorkers = ''1'', edit_status = Filled\<rparr>,
       showDeleteConfirm = None\<rparr>"
  by (simp add: farmerEditing_def farmerPage_eq handleEditJob_def initialPage_def sample_job_ids
        sample_job_status sample_job_fields sample_number_strings Let_def)

text \<open>A real that is a double is the result of rounding it.\<close>

lemma roundTiesToEven_of_int: "roundTiesToEven (real_of_int m) = m"
  by (simp add: roundTiesToEven_def)

lemma toDouble_exact:
  fixes e :: nat
  assumes lo: "2 ^ e \<le> \<bar>x\<bar>" and hi: "\<bar>x\<bar> < 2 ^ Suc e" and e: "e \<le> 52"
    and m: "x * 2 ^ (52 - e) = real_of_int m"
  shows "toDouble x = x"
proof -
  have nz: "x \<noteq> 0"
  proof
    assume "x = 0"
    with lo have "(2::real) ^ e \<le> 0" by simp
    moreover have "(0::real) < 2 ^ e" by (rule zero_less_power) simp
    ultimately show False by linarith
  qed
  have "(2::real) powr real_of_int (int e) \<le> \<bar>x\<bar> \<and> \<bar>x\<bar> < 2 powr real_of_int (int e + 1)"
    using lo hi by (simp add: powr_realpow powr_add)
  with nz have fl: "\<lfloor>log 2 \<bar>x\<bar>\<rfloor> = int e"
    by (subst floor_log_eq_powr_iff) simp_all
  have "real_of_int (int e - 52) = - real (52 - e)"
    using e by simp
  then have "(2::real) powr real_of_int (int e - 52) = inverse (2 ^ (52 - e))"
    by (simp only: powr_minus powr_realpow zero_less_numeral)
  then have u: "(2::real) powr (real e - 52) = inverse (2 ^ (52 - e))"
    by simp
  have "toDouble x = real_of_int (roundTiesToEven (x * 2 ^ (52 - e))) * inverse (2 ^ (52 - e))"
    using nz by (simp add: toDouble_def Let_def fl u divide_inverse)
  also have "\<dots> = (x * 2 ^ (52 - e)) * inverse (2 ^ (52 - e))"
    by (simp only: m roundTiesToEven_of_int)
  also have "\<dots> = x"
    by simp
  finally show ?thesis .
qed

text \<open>The timestamp differences, quotients and remainders of the scenarios are doubles.\<close>

lemma toDouble_samples:
  "toDouble 3600000 = 3600000" "toDouble 5400000 = 5400000" "toDouble 86400000 = 86400000"
  "toDouble 90000000 = 90000000" "toDouble 91800000 = 91800000"
  "toDouble 1 = 1" "toDouble (3 / 2) = 3 / 2" "toDouble 24 = 24" "toDouble 25 = 25"
  "toDouble (51 / 2) = 51 / 2" "toDouble 23 = 23" "toDouble (45 / 2) = 45 / 2"
  "toDouble (- 1) = - 1" "toDouble (- (3 / 2)) = - (3 / 2)"
proof -
  show "toDouble 3600000 = 3600000"
    by (rule toDouble_exact [where e = 21 and m = "3600000 * 2 ^ 31"]) simp_all
  show "toDouble 5400000 = 5400000"
    by (rule toDouble_exact [where e = 22 and m = "5400000 * 2 ^ 30"]) simp_all
  show "toDouble 86400000 = 86400000"
    by (rule toDouble_exact [where e = 26 and m = "86400000 * 2 ^ 26"]) simp_all
  show "toDouble 90000000 = 90000000"
    by (rule toDouble_exact [where e = 26 and m = "90000000 * 2 ^ 26"]) simp_all
  show "toDouble 91800000 = 91800000"
    by (rule toDouble_exact [where e = 26 and m = "91800000 * 2 ^ 26"]) simp_all
  show "toDouble 1 = 1"
    by (rule toDouble_exact [where e = 0 and m = "2 ^ 52"]) simp_all
  show "toDouble (3 / 2) = 3 / 2"
    by (rule toDouble_exact [where e = 0 and m = "3 * 2 ^ 51"]) simp_all
  show "toDouble 24 = 24"
    by (rule toDouble_exact [where e = 4 and m = "24 * 2 ^ 48"]) simp_all
  show "toDouble 25 = 25"
    by (rule toDouble_exact [where e = 4 and m = "25 * 2 ^ 48"]) simp_all
  show "toDouble (51 / 2) = 51 / 2"
    by (rule toDouble_exact [where e = 4 and m = "51 * 2 ^ 47"]) simp_all
  show "toDouble 23 = 23"
    by (rule toDouble_exact [where e = 4 and m = "23 * 2 ^ 48"]) simp_all
  show "toDouble (45 / 2) = 45 / 2"
    by (rule toDouble_exact [where e = 4 and m = "45 * 2 ^ 47"]) simp_all
  show "toDouble (- 1) = - 1"
    by (rule toDouble_exact [where e = 0 and m = "- (2 ^ 52)"]) simp_all
  show "toDouble (- (3 / 2)) = - (3 / 2)"
    by (rule toDouble_exact [where e = 0 and m = "- (3 * 2 ^ 51)"]) simp_all
qed

text \<open>No handler of a farmer's page puts an application on it.\<close>

lemma farmer_handlers_keep_applications:
  assumes "userType u = Farmer"
  shows "applications (fst (loadData (Some u) p s)) = applications p"
    and "applications (snd (handleEditJob env jid p)) = applications p"
    and "applications (fst (snd (handleSaveEdit v env (Some u) p s))) = applications p"
    and "applications (snd (handleDeleteJob jid p)) = applications p"
    and "applications (fst (confirmDeleteJob (Some u) p s)) = applications p"
proof -
  show load: "\<And>p s. applications (fst (loadData (Some u) p s)) = applications p"
    using assms by (simp add: loadData_farmer)
  show "applications (snd (handleEditJob env jid p)) = applications p"
    by (simp add: handleEditJob_def split: option.splits)
  show "applications (snd (handleDeleteJob jid p)) = applications p"
    by (simp add: handleDeleteJob_def split: option.splits)
  show "applications (fst (confirmDeleteJob (Some u) p s)) = applications p"
    by (simp add: confirmDeleteJob_def Let_def load split: option.splits)
  show "applications (fst (snd (handleSaveEdit v env (Some u) p s))) = applications p"
  proof (cases "editingJob p")
    case None
    then show ?thesis by (simp add: handleSaveEdit_def)
  next
    case (Some e)
    show ?thesis
    proof (cases "e = [] \<or> find (\<lambda>k. job_id k = e) (jobs p) = None")
      case True
      with Some show ?thesis by (auto simp: handleSaveEdit_def)
    next
      case False
      then obtain j where j: "e \<noteq> []" "find (\<lambda>k. job_id k = e) (jobs p) = Some j" by auto
      show ?thesis
      proof (cases "status j = Completed")
        case True
        with Some j show ?thesis by (simp add: handleSaveEdit_def)
      next
        case False
        show ?thesis
          unfolding handleSaveEdit_checks [OF Some j False]
          by (simp add: load)
      qed
    qed
  qed
qed

text \<open>With no application on the page, no edit meets the wage lock or a capacity alert.\<close>

lemma no_applications_no_lock:
  assumes "applications p = []"
  shows "fst (handleSaveEdit v env usr p s) \<noteq> [WageLocked a b c]"
    and "fst (handleSaveEdit v env usr p s) \<noteq> [BelowAccepted d]"
    and "fst (handleSaveEdit v env usr p s) \<noteq> [ReduceWithApplications f g]"
proof -
  have apps: "getJobApplications p e = []" "getAcceptedApplicationsCount p e = 0" for e
    using assms by (simp_all add: getJobApplications_def getAcceptedApplicationsCount_def)
  have "fst (handleSaveEdit v env usr p s) \<noteq> [WageLocked a b c]
      \<and> fst (handleSaveEdit v env usr p s) \<noteq> [BelowAccepted d]
      \<and> fst (handleSaveEdit v env usr p s) \<noteq> [ReduceWithApplications f g]"
  proof (cases "editingJob p")
    case None
    then show ?thesis by (simp add: handleSaveEdit_def)
  next
    case (Some e)
    show ?thesis
    proof (cases "e = [] \<or> find (\<lambda>k. job_id k = e) (jobs p) = None")
      case True
      with Some show ?thesis by (auto simp: handleSaveEdit_def)
    next
      case False
      then obtain j where j: "e \<noteq> []" "find (\<lambda>k. job_id k = e) (jobs p) = Some j" by auto
      show ?thesis
      proof (cases "status j = Completed")
        case True
        with Some j show ?thesis by (simp add: handleSaveEdit_def)
      next
        case False
        show ?thesis
          unfolding handleSaveEdit_checks [OF Some j False]
          by (cases "parseInt env (edit_requiredWorkers (editData p))") (simp_all add: apps split_def)
      qed
    qed
  qed
  then show "fst (handleSaveEdit v env usr p s) \<noteq> [WageLocked a b c]"
    and "fst (handleSaveEdit v env usr p s) \<noteq> [BelowAccepted d]"
    and "fst (handleSaveEdit v env usr p s) \<noteq> [ReduceWithApplications f g]"
    by simp_all
qed

text \<open>The pages and stores of the scenarios, step by step.\<close>

lemma sample_worker_applications:
  "workerId appRejectedFirst = ''W3''" "workerId appRejected = ''W3''"
  "jobId appRejectedFirst = ''J1''"
  "app_status appRejectedFirst = Rejected" "app_status appRejected = Rejected"
  "rejectedAt appRejectedFirst = Some ''2023-12-31T00:00:00.000Z''"
  "rejectedAt appRejected = Some ''2024-01-01T00:00:00.000Z''"
  by (simp_all add: appRejectedFirst_def appRejected_def)

lemma sample_times:
  "getTime sampleEnv ''2023-12-31T00:00:00.000Z'' = Num 1703980800000"
  "getTime sampleEnv ''2024-01-01T00:00:00.000Z'' = Num 1704067200000"
  "now sampleEnv = 1704072600000"
  by (simp_all add: sampleEnv_def)

lemma recomputeStatus_jobA: "recomputeStatus jobA = jobA"
  by (simp add: recomputeStatus_def acceptedLength_def jobA_def)

lemma workerPage_eq:
  "workerPage = initialPage\<lparr>jobs := [jobA], applications := [appRejectedFirst, appRejected]\<rparr>"
  by (simp add: workerPage_def workerStore_def loadData_def updateAllJobStatuses_def getJobs_def
        getApplications_def Let_def workerW_def sample_worker_applications sample_application_jobs
        sample_job_ids recomputeStatus_jobA)

lemma workerPageOnce_eq:
  "workerPageOnce = initialPage\<lparr>jobs := [jobA], applications := [appRejected]\<rparr>"
  by (simp add: workerPageOnce_def loadData_def updateAllJobStatuses_def getJobs_def
        getApplications_def Let_def workerW_def sample_worker_applications sample_application_jobs
        sample_job_ids recomputeStatus_jobA)

lemma farmerRaisingWage_eq:
  "farmerRaisingWage = \<lparr>jobs = [jobB, jobK], applications = [], editingJob = Some ''J1'',
       editData = \<lparr>edit_wage = ''600'', edit_requiredWorkers = ''2'', edit_status = Filled\<rparr>,
       showDeleteConfirm = None\<rparr>"
  by (simp add: farmerRaisingWage_def farmerPage_eq handleEditJob_def initialPage_def sample_job_ids
        sample_job_status sample_job_fields sample_number_strings Let_def)

lemma scenarioDLoaded_eq:
  "scenarioDLoaded = (initialPage\<lparr>jobs := [jobA\<lparr>requiredWorkers := Num 3\<rparr>]\<rparr>, scenarioDStore)"
  by (simp add: scenarioDLoaded_def scenarioDStore_def loadData_farmer farmerF_def
        recomputeStatus_def acceptedLength_def jobA_def)

lemma scenarioDEditing_eq:
  "scenarioDEditing = \<lparr>jobs = [jobA\<lparr>requiredWorkers := Num 3\<rparr>], applications = [],
       editingJob = Some ''J1'',
       editData = \<lparr>edit_wage = ''500'', edit_requiredWorkers = ''2'', edit_status = Open\<rparr>,
       showDeleteConfirm = None\<rparr>"
  by (simp add: scenarioDEditing_def scenarioDLoaded_eq handleEditJob_def initialPage_def
        sample_job_ids sample_job_status sample_number_strings Let_def jobA_def)

lemma closingForm_eq:
  "closingForm = \<lparr>jobs = [jobB, jobK], applications = [], editingJob = Some ''J1'',
       editData = \<lparr>edit_wage = ''500'', edit_requiredWorkers = ''2'', edit_status = Completed\<rparr>,
       showDeleteConfirm = None\<rparr>"
  by (simp add: closingForm_def farmerPage_eq handleEditJob_def initialPage_def sample_job_ids
        sample_job_status sample_job_fields sample_number_strings Let_def)

lemma closingAsked_eq: "closingAsked = ([], closingForm\<lparr>showDeleteConfirm := Some ''J1''\<rparr>)"
  by (simp add: closingAsked_def handleDeleteJob_def closingForm_eq sample_job_ids sample_job_status)

lemma closingSaved_eq:
  "closingSaved = ([], closingForm\<lparr>showDeleteConfirm := Some ''J1'', editingJob := None,
                                   jobs := [jobDone, jobK]\<rparr>,
                   farmerStore\<lparr>kheticulture_jobs := [jobDone, jobK]\<rparr>)"
proof -
  have patched: "recomputeStatus (recomputeStatus
        (applyPatch \<lparr>patch_wage = Num 500, patch_requiredWorkers = Num 2, patch_status = Completed\<rparr> jobB))
      = jobDone"
    by (simp add: applyPatch_def recomputeStatus_def acceptedLength_def jobDone_def jobB_def jobA_def)
  have farmer: "farmerId jobDone = ''F1''"
    by (simp add: jobDone_def jobB_def jobA_def)
  show ?thesis
    by (simp add: closingSaved_def closingAsked_eq handleSaveEdit_def Let_def closingForm_eq
          farmerStore_eq sampleStore_def getJobApplications_def getAcceptedApplicationsCount_def
          sample_job_ids sample_job_status sample_job_fields sampleEnv_def specWageValidator_def
          loadData_farmer farmerF_def checkStatusAfterWorkerAccepted_def updateJob_def patched
          sample_jobs_reconciled farmer)
qed

subsection \<open>What the guarded handlers do on the state they read\<close>

text \<open>
  A job whose copy on the page is completed: opening its edit form, saving an edit of it
  and asking for its deletion each show an alert and write nothing.
\<close>

lemma guarded_handlers_reject_completed:
  assumes "find (\<lambda>k. job_id k = jid) (jobs p) = Some j" and "status j = Completed" and "jid \<noteq> []"
  shows "handleEditJob env jid p = ([CannotEditCompleted], p)
       \<and> handleSaveEdit v env usr (p\<lparr>editingJob := Some jid\<rparr>) s
           = ([CannotEditCompleted], p\<lparr>editingJob := None\<rparr>, s)
       \<and> handleDeleteJob jid p = ([CannotDeleteCompleted], p)"
  using assms by (simp add: handleEditJob_def handleSaveEdit_def handleDeleteJob_def)


text \<open>
  On a page that holds an application for the job being edited, an edit that proposes
  another wage is rejected: with the completed-job alert, the invalid-wage alert, or the
  wage lock and the number of applications of the page.
\<close>

lemma page_wage_lock:
  assumes "editingJob p = Some e" and "e \<noteq> []"
    and "find (\<lambda>k. job_id k = e) (jobs p) = Some j"
    and "getJobApplications p e \<noteq> []"
    and "strict_neq (parseFloat env (edit_wage (editData p))) (wage j)"
  shows "fst (handleSaveEdit v env usr p s) =
           (if status j = Completed then [CannotEditCompleted]
            else if isNaN (parseFloat env (edit_wage (editData p)))
                    \<or> num_le (parseFloat env (edit_wage (editData p))) (Num 0)
            then [InvalidWageAmount]
            else [WageLocked (wage j) (parseFloat env (edit_wage (editData p)))
                    (length (getJobApplications p e))])
       \<and> snd (snd (handleSaveEdit v env usr p s)) = s
       \<and> jobs (fst (snd (handleSaveEdit v env usr p s))) = jobs p"
  using assms by (simp add: handleSaveEdit_def Let_def)

text \<open>
  Once the job is not completed and the wage field passes, a positive worker count is
  rejected when it is below the accepted applications of the page, or below the job's
  required workers while the page holds an application for the job, and is saved
  otherwise.
\<close>

lemma page_capacity_checks:
  assumes "editingJob p = Some e" and "e \<noteq> []"
    and "find (\<lambda>k. job_id k = e) (jobs p) = Some j"
    and "status j \<noteq> Completed"
    and "parseFloat env (edit_wage (editData p)) = Num w" and "0 < w"
    and "\<not> (length (getJobApplications p e) > 0 \<and> strict_neq (Num w) (wage j))"
    and "\<not> (\<not> canModify (validateWageChange v (wage j) (Num w) (length (getJobApplications p e) > 0)
                  (getAcceptedApplicationsCount p e))
            \<and> strict_neq (Num w) (wage j))"
    and "parseInt env (edit_requiredWorkers (editData p)) = Num n" and "0 < n"
  shows "fst (handleSaveEdit v env usr p s) =
           (if n < real (getAcceptedApplicationsCount p e)
            then [BelowAccepted (getAcceptedApplicationsCount p e)]
            else if length (getJobApplications p e) > 0 \<and> num_lt (Num n) (requiredWorkers j)
            then [ReduceWithApplications (requiredWorkers j) (Num n)]
            else [])
       \<and> (if n < real (getAcceptedApplicationsCount p e)
              \<or> (length (getJobApplications p e) > 0 \<and> num_lt (Num n) (requiredWorkers j))
           then snd (snd (handleSaveEdit v env usr p s)) = s
           else map requiredWorkers (kheticulture_jobs (snd (snd (handleSaveEdit v env usr p s))))
                = map (\<lambda>k. if job_id k = e then Num n else requiredWorkers k) (kheticulture_jobs s))"
proof (cases "getJobApplications p e = []")
  case True
  with assms show ?thesis
    by (cases "strict_neq (Num w) (wage j)")
       (simp_all add: handleSaveEdit_def Let_def split_def saved_store_requiredWorkers)
next
  case False
  with assms show ?thesis
    by (simp add: handleSaveEdit_def Let_def split_def saved_store_requiredWorkers)
qed

subsection \<open>The wage lock\<close>

text \<open>
  Claim C1. The wage of a job with applications can be changed. In the farmer's session
  on the sample store, job J1 has the wage 500 and two applications in the store; the
  page of the farmer holds no application, the farmer types 600 into the wage and
  saves, no alert is shown, and the stored job has the wage 600.
\<close>

theorem farmer_edit_changes_wage:
  "kheticulture_jobs farmerStore = [jobB, jobK]
   \<and> wage jobB = Num 500
   \<and> length (filter (\<lambda>app. jobId app = ''J1'') (kheticulture_applications farmerStore)) = 2
   \<and> getJobApplications farmerRaisingWage ''J1'' = []
   \<and> fst (handleSaveEdit specWageValidator sampleEnv (Some farmerF) farmerRaisingWage farmerStore) = []
   \<and> kheticulture_jobs
        (snd (snd (handleSaveEdit specWageValidator sampleEnv (Some farmerF) farmerRaisingWage farmerStore)))
       = [jobB\<lparr>wage := Num 600\<rparr>, jobK]"
proof -
  have store: "kheticulture_jobs farmerStore = [jobB, jobK]"
    by (simp add: farmerStore_eq sampleStore_def)
  have apps: "length (filter (\<lambda>app. jobId app = ''J1'') (kheticulture_applications farmerStore)) = 2"
    by (simp add: farmerStore_eq sampleStore_def sample_application_jobs)
  have page: "getJobApplications farmerRaisingWage ''J1'' = []"
    by (simp add: farmerRaisingWage_eq getJobApplications_def)
  have patched: "recomputeStatus (recomputeStatus
        (applyPatch \<lparr>patch_wage = Num 600, patch_requiredWorkers = Num 2, patch_status = Filled\<rparr> jobB))
      = jobB\<lparr>wage := Num 600\<rparr>"
    by (simp add: applyPatch_def recomputeStatus_def acceptedLength_def jobB_def jobA_def)
  have saved: "handleSaveEdit specWageValidator sampleEnv (Some farmerF) farmerRaisingWage farmerStore
      = ([], farmerRaisingWage\<lparr>editingJob := None, jobs := [jobB\<lparr>wage := Num 600\<rparr>, jobK]\<rparr>,
         farmerStore\<lparr>kheticulture_jobs := [jobB\<lparr>wage := Num 600\<rparr>, jobK]\<rparr>)"
    by (simp add: handleSaveEdit_def Let_def farmerRaisingWage_eq farmerStore_eq sampleStore_def
          getJobApplications_def getAcceptedApplicationsCount_def sample_job_ids sample_job_status
          sample_job_fields sampleEnv_def specWageValidator_def loadData_farmer farmerF_def
          checkStatusAfterWorkerAccepted_def updateJob_def patched sample_jobs_reconciled)
  from store apps page saved show ?thesis
    by (simp add: sample_job_fields)
qed

subsection \<open>Completed jobs\<close>

text \<open>
  Claim C2. A completed job can be deleted. In the closing session the deletion is
  asked for while the job is still filled, so the dialog opens; the save then makes
  the job completed in the store and on the reloaded page, the dialog still names the
  job, and the confirmation, which checks no status, removes the completed job and
  its applications from the store.
\<close>

theorem completed_job_deleted:
  "fst closingAsked = []
   \<and> fst closingSaved = []
   \<and> kheticulture_jobs (snd (snd closingSaved)) = [jobDone, jobK]
   \<and> status jobDone = Completed
   \<and> kheticulture_applications (snd (snd closingSaved)) = [appA1, appK, appA2]
   \<and> jobs (fst (snd closingSaved)) = [jobDone, jobK]
   \<and> showDeleteConfirm (fst (snd closingSaved)) = Some ''J1''
   \<and> kheticulture_jobs (snd closingConfirmed) = [jobK]
   \<and> kheticulture_applications (snd closingConfirmed) = [appK]"
proof -
  have confirmed: "snd closingConfirmed
      = \<lparr>kheticulture_jobs = [jobK], kheticulture_applications = [appK]\<rparr>"
    by (simp add: closingConfirmed_def closingSaved_eq confirmDeleteJob_def Let_def getJobs_def
          getApplications_def loadData_farmer farmerF_def farmerStore_eq sampleStore_def
          sample_job_ids sample_application_jobs sample_jobs_reconciled)
  show ?thesis
    by (simp add: closingAsked_eq closingSaved_eq confirmed farmerStore_eq sampleStore_def
          sample_job_status)
qed

subsection \<open>The capacity rule\<close>

text \<open>
  Claim C3. The number of required workers can be reduced although a worker has
  applied. In scenario D in a farmer's session the store holds job J1 with three
  required workers and one pending application; the page of the farmer holds no
  application, the farmer types 2 and saves, no alert is shown, and the stored job
  has two required workers.
\<close>

theorem farmer_edit_shrinks_capacity:
  "kheticulture_jobs (snd scenarioDLoaded) = [jobA\<lparr>requiredWorkers := Num 3\<rparr>]
   \<and> kheticulture_applications (snd scenarioDLoaded) = [appPending]
   \<and> jobId appPending = ''J1''
   \<and> getJobApplications scenarioDEditing ''J1'' = []
   \<and> fst (handleSaveEdit specWageValidator sampleEnv (Some farmerF) scenarioDEditing
            (snd scenarioDLoaded)) = []
   \<and> kheticulture_jobs
        (snd (snd (handleSaveEdit specWageValidator sampleEnv (Some farmerF) scenarioDEditing
                     (snd scenarioDLoaded))))
       = [jobA\<lparr>requiredWorkers := Num 2\<rparr>]"
proof -
  have page: "getJobApplications scenarioDEditing ''J1'' = []"
    by (simp add: scenarioDEditing_eq getJobApplications_def)
  have patched: "recomputeStatus (recomputeStatus
        (applyPatch \<lparr>patch_wage = Num 500, patch_requiredWorkers = Num 2, patch_status = Open\<rparr>
           (jobA\<lparr>requiredWorkers := Num 3\<rparr>)))
      = jobA\<lparr>requiredWorkers := Num 2\<rparr>"
    by (simp add: applyPatch_def recomputeStatus_def acceptedLength_def jobA_def)
  have saved: "handleSaveEdit specWageValidator sampleEnv (Some farmerF) scenarioDEditing
                 (snd scenarioDLoaded)
      = ([], scenarioDEditing\<lparr>editingJob := None, jobs := [jobA\<lparr>requiredWorkers := Num 2\<rparr>]\<rparr>,
         scenarioDStore\<lparr>kheticulture_jobs := [jobA\<lparr>requiredWorkers := Num 2\<rparr>]\<rparr>)"
    by (simp add: handleSaveEdit_def Let_def scenarioDEditing_eq scenarioDLoaded_eq scenarioDStore_def
          getJobApplications_def getAcceptedApplicationsCount_def sample_job_ids
          sampleEnv_def specWageValidator_def loadData_farmer farmerF_def
          checkStatusAfterWorkerAccepted_def updateJob_def patched)
       (simp add: jobA_def)
  from page saved show ?thesis
    by (simp add: scenarioDLoaded_eq scenarioDStore_def sample_application_jobs)
qed

subsection \<open>The wage left as it is\<close>

text \<open>
  Claim C6. In an edit of a job that is not completed and has a positive wage, a wage
  field equal to the job's wage passes every wage check, whatever applications the
  page holds and whatever the wage validator answers: the only alerts left are those
  of the worker count, and when the count passes them the edit is saved, the stored
  wages being those of before with the job's wage for the job.
\<close>

theorem wage_noop:
  assumes "editingJob p = Some e" and "e \<noteq> []"
    and "find (\<lambda>k. job_id k = e) (jobs p) = Some j"
    and "status j \<noteq> Completed"
    and "wage j = Num w" and "0 < w"
    and "parseFloat env (edit_wage (editData p)) = wage j"
  shows "fst (handleSaveEdit v env usr p s) =
           (if isNaN (parseInt env (edit_requiredWorkers (editData p)))
               \<or> num_le (parseInt env (edit_requiredWorkers (editData p))) (Num 0)
            then [InvalidWorkerCount]
            else if num_lt (parseInt env (edit_requiredWorkers (editData p)))
                      (Num (real (getAcceptedApplicationsCount p e)))
            then [BelowAccepted (getAcceptedApplicationsCount p e)]
            else if length (getJobApplications p e) > 0
                    \<and> num_lt (parseInt env (edit_requiredWorkers (editData p))) (requiredWorkers j)
            then [ReduceWithApplications (requiredWorkers j)
                    (parseInt env (edit_requiredWorkers (editData p)))]
            else [])
       \<and> (if isNaN (parseInt env (edit_requiredWorkers (editData p)))
              \<or> num_le (parseInt env (edit_requiredWorkers (editData p))) (Num 0)
              \<or> num_lt (parseInt env (edit_requiredWorkers (editData p)))
                   (Num (real (getAcceptedApplicationsCount p e)))
              \<or> (length (getJobApplications p e) > 0
                  \<and> num_lt (parseInt env (edit_requiredWorkers (editData p))) (requiredWorkers j))
           then snd (snd (handleSaveEdit v env usr p s)) = s
           else map wage (kheticulture_jobs (snd (snd (handleSaveEdit v env usr p s))))
                = map (\<lambda>k. if job_id k = e then wage j else wage k) (kheticulture_jobs s))"
  using assms
  by (simp add: handleSaveEdit_def Let_def split_def saved_store_wage)

text \<open>The wage 500 kept on a job with two applications, and on a job with none.\<close>

theorem wage_noop_witness:
  "fst (handleSaveEdit specWageValidator sampleEnv (Some farmerF)
          (editingPage jobB [appA1, appA2] ''500'' ''2'' Filled) sampleStore) = []
   \<and> map wage (kheticulture_jobs (snd (snd (handleSaveEdit specWageValidator sampleEnv
          (Some farmerF) (editingPage jobB [appA1, appA2] ''500'' ''2'' Filled) sampleStore))))
     = [Num 500, Num 600]
   \<and> fst (handleSaveEdit specWageValidator sampleEnv (Some farmerF)
          (editingPage jobA [] ''500'' ''2'' Open) sampleStore) = []"
  using wage_noop [where e = "''J1''" and j = jobB
      and p = "editingPage jobB [appA1, appA2] ''500'' ''2'' Filled"
      and env = sampleEnv and v = specWageValidator and usr = "Some farmerF" and s = sampleStore
      and w = 500]
    wage_noop [where e = "''J1''" and j = jobA
      and p = "editingPage jobA [] ''500'' ''2'' Open"
      and env = sampleEnv and v = specWageValidator and usr = "Some farmerF" and s = sampleStore
      and w = 500]
  by (simp add: editingPage_def jobA_def jobB_def jobK_def appA1_def appA2_def
        sampleEnv_def sampleStore_def getJobApplications_def getAcceptedApplicationsCount_def)

text \<open>On a completed job the same edit fails with the completed-job alert.\<close>

theorem wage_noop_counterexample:
  "parseFloat sampleEnv (edit_wage (editData (editingPage jobDone [] ''500'' ''2'' Completed)))
     = wage jobDone
   \<and> handleSaveEdit specWageValidator sampleEnv (Some farmerF)
        (editingPage jobDone [] ''500'' ''2'' Completed) sampleStore
     = ([CannotEditCompleted], (editingPage jobDone [] ''500'' ''2'' Completed)\<lparr>editingJob := None\<rparr>,
        sampleStore)"
  by (simp add: handleSaveEdit_def Let_def editingPage_def jobDone_def jobB_def jobA_def sampleEnv_def)


subsection \<open>The reapplication cooldown\<close>

text \<open>
  Scenario C on the page with the one rejection: no reapplication one hour after it,
  reapplication 24 and 25 hours after it, and 23 hours announced ninety minutes after it.
\<close>

lemma first_rejection_cooldown:
  "\<not> canReapply (sampleEnv\<lparr>now := 1704067200000 + 1 * 3600000\<rparr>) workerPageOnce ''J1''"
  "canReapply (sampleEnv\<lparr>now := 1704067200000 + 24 * 3600000\<rparr>) workerPageOnce ''J1''"
  "canReapply (sampleEnv\<lparr>now := 1704067200000 + 25 * 3600000\<rparr>) workerPageOnce ''J1''"
  "getTimeUntilReapply sampleEnv workerPageOnce ''J1'' = ''Can reapply in 23 hours''"
  by (simp_all add: canReapply_def getTimeUntilReapply_def workerPageOnce_eq sample_application_jobs
        sample_worker_applications sample_times toDouble_samples sample_number_strings Let_def)

text \<open>
  The card offers the apply button only when its caller passes \<^verbatim>\<open>canApply\<close>, passes no
  application status and the job is open; the page that renders the card for a worker
  who can apply, and its apply handler, are not among the sources.
\<close>

lemma canApplyToJob_iff:
  "canApplyToJob c \<longleftrightarrow> canApply c \<and> applicationStatus c = None \<and> status (card_job c) = Open"
  by (simp add: canApplyToJob_def)



text \<open>
  Claim C9. No remaining time is shown for a later rejection. On the same page the
  cooldown of the later rejection has 22.5 hours left, which rounds up to 23 hours;
  the page shows the status rejected, and the text of \<^verbatim>\<open>getTimeUntilReapply\<close>, which
  reads the first application found for the job, is empty.
\<close>

theorem second_rejection_no_remaining_time:
  "applications workerPage = [appRejectedFirst, appRejected]
   \<and> jobId appRejected = ''J1'' \<and> app_status appRejected = Rejected
   \<and> rejectedAt appRejected = Some ''2024-01-01T00:00:00.000Z''
   \<and> getTime sampleEnv ''2024-01-01T00:00:00.000Z'' = Num 1704067200000
   \<and> now sampleEnv - 1704067200000 = 90 * 60 * 1000
   \<and> \<lceil>24 - (now sampleEnv - 1704067200000) / (1000 * 60 * 60)\<rceil> = 23
   \<and> getApplicationStatus workerPage ''J1'' = Rejected
   \<and> getTimeUntilReapply sampleEnv workerPage ''J1'' = []"
proof -
  have "\<lceil>24 - (now sampleEnv - 1704067200000) / (1000 * 60 * 60)\<rceil> = 23"
    by (simp add: sample_times ceiling_eq_iff)
  then show ?thesis
    by (simp add: getTimeUntilReapply_def getApplicationStatus_def workerPage_eq
          sample_application_jobs sample_worker_applications sample_times toDouble_samples Let_def)
qed

theorem second_rejection_no_remaining_time_witness:
  "getApplicationStatus workerPage ''J1'' = Rejected
   \<and> getTimeUntilReapply sampleEnv workerPage ''J1'' = []"
  using second_rejection_no_remaining_time by simp

subsection \<open>Posting a job\<close>

text \<open>
  Claim C10. A job-creation request whose wage parses to more than 100000 fails: an
  error is set and the store is left as it is. The error is the one of the first check
  that fails, which is the wage bound once the user is a farmer, the text fields are
  filled and the wage field is not empty.
\<close>

theorem wage_upper_bound:
  assumes "parseFloat env (form_wage f) = Num w" and "100000 < w"
  shows "snd (handleSubmit env usr f s) = s
       \<and> fst (handleSubmit env usr f s) \<noteq> []
       \<and> fst (handleSubmit env usr f s) =
           (if usr = None \<or> userType (the usr) \<noteq> Farmer then ''Only farmers can post jobs''
            else if trim (form_title f) = [] \<or> trim (form_description f) = []
                    \<or> trim (form_location f) = []
            then ''Please fill in all required fields''
            else if form_wage f = [] then ''Please enter a valid wage amount (minimum NPR.1)''
            else ''Wage amount seems too high. Please enter a reasonable amount.'')"
  using assms by (simp add: handleSubmit_def Let_def split: option.splits)

theorem wage_upper_bound_witness:
  "handleSubmit sampleEnv (Some farmerF) wageTooHighForm sampleStore
     = (''Wage amount seems too high. Please enter a reasonable amount.'', sampleStore)"
  using wage_upper_bound [where env = sampleEnv and f = wageTooHighForm and w = 150000
      and usr = "Some farmerF" and s = sampleStore]
  by (simp add: wageTooHighForm_def sampleEnv_def farmerF_def trim_def isWhiteSpace_def prod_eq_iff)

subsection \<open>The status pass\<close>

text \<open>
  Claim C7. Running the batch status pass on the store it has just produced returns
  the same collection and leaves the same store: the pass is idempotent.
\<close>

theorem recompute_idempotent:
  "updateAllJobStatuses (snd (updateAllJobStatuses s)) = updateAllJobStatuses s"
  by (simp add: updateAllJobStatuses_def getJobs_def Let_def recomputeStatus_idem)

subsection \<open>Deleting a job\<close>

text \<open>
  Claim C8. When the owner deletes a job that is not completed, and the store is as the
  status pass of the last load left it, the deletion is confirmed without an alert and
  afterwards the store holds exactly the jobs with another id and exactly the
  applications of other jobs, each unchanged and in the same order.
\<close>

theorem deletion_cascade:
  assumes "find (\<lambda>k. job_id k = d) (jobs p) = Some j" and "status j \<noteq> Completed" and "d \<noteq> []"
    and "userType u = Farmer"
    and "\<forall>k \<in> set (kheticulture_jobs s). recomputeStatus k = k"
  shows "fst (handleDeleteJob d p) = []
       \<and> kheticulture_jobs (snd (confirmDeleteJob (Some u) (snd (handleDeleteJob d p)) s))
           = filter (\<lambda>k. job_id k \<noteq> d) (kheticulture_jobs s)
       \<and> kheticulture_applications (snd (confirmDeleteJob (Some u) (snd (handleDeleteJob d p)) s))
           = filter (\<lambda>app. jobId app \<noteq> d) (kheticulture_applications s)"
proof -
  have "map recomputeStatus (filter (\<lambda>k. job_id k \<noteq> d) (kheticulture_jobs s))
        = filter (\<lambda>k. job_id k \<noteq> d) (kheticulture_jobs s)"
    using assms(5) by (intro map_idI) simp
  then show ?thesis
    using assms(1-4)
    by (simp add: handleDeleteJob_def confirmDeleteJob_def Let_def loadData_farmer getJobs_def
          getApplications_def)
qed

text \<open>Deleting job J1 leaves job J2 and its application.\<close>

theorem deletion_cascade_witness:
  "kheticulture_jobs (snd (confirmDeleteJob (Some farmerF)
       (snd (handleDeleteJob ''J1'' (initialPage\<lparr>jobs := [jobB, jobK]\<rparr>))) sampleStore)) = [jobK]
   \<and> kheticulture_applications (snd (confirmDeleteJob (Some farmerF)
       (snd (handleDeleteJob ''J1'' (initialPage\<lparr>jobs := [jobB, jobK]\<rparr>))) sampleStore)) = [appK]"
proof -
  have found: "find (\<lambda>k. job_id k = ''J1'') (jobs (initialPage\<lparr>jobs := [jobB, jobK]\<rparr>)) = Some jobB"
    by (simp add: sample_job_ids)
  have live: "status jobB \<noteq> Completed"
    by (simp add: sample_job_status)
  have farmer: "userType farmerF = Farmer"
    by (simp add: farmerF_def)
  have reconciled: "\<forall>k \<in> set (kheticulture_jobs sampleStore). recomputeStatus k = k"
    by (simp add: sampleStore_def sample_jobs_reconciled)
  show ?thesis
    using deletion_cascade [OF found live _ farmer reconciled]
    by (simp add: sampleStore_def sample_job_ids sample_application_jobs)
qed

subsection \<open>Accepted workers and required workers\<close>

text \<open>
  A job leaves \<^verbatim>\<open>handleSubmit\<close> with no accepted worker and a positive number of
  required workers, the status pass does not touch either field, and an edit that is
  saved keeps invariant I2 for the job whenever the accepted applications counted on
  the page are at least the accepted workers of the job.
\<close>

lemma created_job:
  assumes "fst (handleSubmit env (Some u) f s) = []"
  shows "snd (handleSubmit env (Some u) f s) =
           saveJob \<lparr>job_id = nowString env, farmerId = user_id u, farmerName = user_name u,
                    title = trim (form_title f), description = trim (form_description f),
                    preferredDate = form_preferredDate f, wage = parseFloat env (form_wage f),
                    duration = parseInt env (form_duration f), durationType = form_durationType f,
                    location = trim (form_location f),
                    requiredWorkers = parseInt env (form_requiredWorkers f),
                    acceptedWorkerIds = Some [], createdAt = nowISOString env, status = Open\<rparr> s
       \<and> \<not> num_le (parseInt env (form_requiredWorkers f)) (Num 0)"
  using assms by (simp add: handleSubmit_def Let_def split: if_splits)

lemma I2_no_accepted:
  "acceptedWorkerIds j = Some [] \<Longrightarrow> requiredWorkers j = Num n \<Longrightarrow> \<not> num_le (Num n) (Num 0) \<Longrightarrow> I2 j"
  by (simp add: I2_def acceptedLength_def)

lemma saved_edit_I2:
  assumes "editingJob p = Some e" and "e \<noteq> []"
    and "find (\<lambda>k. job_id k = e) (jobs p) = Some j"
    and "status j \<noteq> Completed"
    and "fst (handleSaveEdit v env usr p s) = []"
    and "k \<in> set (kheticulture_jobs (snd (snd (handleSaveEdit v env usr p s))))"
    and "job_id k = e"
    and "acceptedLength k \<le> getAcceptedApplicationsCount p e"
  shows "I2 k"
proof -
  note checks = handleSaveEdit_checks [OF assms(1-4), of v env usr s]
  from assms(5) have count: "\<not> isNaN (parseInt env (edit_requiredWorkers (editData p)))"
    and above: "\<not> num_lt (parseInt env (edit_requiredWorkers (editData p)))
                  (Num (real (getAcceptedApplicationsCount p e)))"
    and saved: "snd (snd (handleSaveEdit v env usr p s)) =
       snd (loadData usr (p\<lparr>editingJob := None\<rparr>)
                  (checkStatusAfterWorkerAccepted e
                     (updateJob e \<lparr>patch_wage = parseFloat env (edit_wage (editData p)),
                                   patch_requiredWorkers = parseInt env (edit_requiredWorkers (editData p)),
                                   patch_status = edit_status (editData p)\<rparr> s)))"
    unfolding checks by (auto split: if_splits)
  from count obtain n where n: "parseInt env (edit_requiredWorkers (editData p)) = Num n"
    by (cases "parseInt env (edit_requiredWorkers (editData p))") simp_all
  from assms(6) saved_store_job [OF _ assms(7)] have "requiredWorkers k = Num n"
    unfolding saved by (simp add: n)
  with above n assms(8) show ?thesis
    by (simp add: I2_def)
qed

text \<open>
  Claim C5. Invariant I2 does not survive every capacity edit. The page of a farmer
  never loads the applications, so the edit form counts no accepted application: in the
  session of the sample data, job J1 has two accepted workers and two accepted
  applications in the store, the farmer lowers the required workers from 2 to 1, the
  edit is saved without an alert, and the stored job then has two accepted workers for
  one required worker.
\<close>

theorem farmer_edit_breaks_I2:
  "kheticulture_jobs farmerStore = [jobB, jobK]
   \<and> length (filter (\<lambda>app. jobId app = ''J1'' \<and> app_status app = Accepted)
        (kheticulture_applications farmerStore)) = 2
   \<and> I2 jobB
   \<and> getAcceptedApplicationsCount farmerEditing ''J1'' = 0
   \<and> fst (handleSaveEdit specWageValidator sampleEnv (Some farmerF) farmerEditing farmerStore) = []
   \<and> kheticulture_jobs
        (snd (snd (handleSaveEdit specWageValidator sampleEnv (Some farmerF) farmerEditing farmerStore)))
       = [jobB\<lparr>requiredWorkers := Num 1\<rparr>, jobK]
   \<and> acceptedLength (jobB\<lparr>requiredWorkers := Num 1\<rparr>) = 2
   \<and> \<not> I2 (jobB\<lparr>requiredWorkers := Num 1\<rparr>)"
proof -
  have store: "kheticulture_jobs farmerStore = [jobB, jobK]"
    by (simp add: farmerStore_eq sampleStore_def)
  have apps: "length (filter (\<lambda>app. jobId app = ''J1'' \<and> app_status app = Accepted)
        (kheticulture_applications farmerStore)) = 2"
    by (simp add: farmerStore_eq sampleStore_def appA1_def appA2_def appK_def)
  have before: "I2 jobB"
    by (simp add: I2_def acceptedLength_def sample_job_fields)
  have count: "getAcceptedApplicationsCount farmerEditing ''J1'' = 0"
    by (simp add: farmerEditing_eq getAcceptedApplicationsCount_def)
  have patched: "recomputeStatus (recomputeStatus
        (applyPatch \<lparr>patch_wage = Num 500, patch_requiredWorkers = Num 1, patch_status = Filled\<rparr> jobB))
      = jobB\<lparr>requiredWorkers := Num 1\<rparr>"
    by (simp add: applyPatch_def recomputeStatus_def acceptedLength_def jobB_def jobA_def)
  have saved: "handleSaveEdit specWageValidator sampleEnv (Some farmerF) farmerEditing farmerStore
      = ([], farmerEditing\<lparr>editingJob := None, jobs := [jobB\<lparr>requiredWorkers := Num 1\<rparr>, jobK]\<rparr>,
         farmerStore\<lparr>kheticulture_jobs := [jobB\<lparr>requiredWorkers := Num 1\<rparr>, jobK]\<rparr>)"
    by (simp add: handleSaveEdit_def Let_def farmerEditing_eq farmerStore_eq sampleStore_def
          getJobApplications_def getAcceptedApplicationsCount_def sample_job_ids sample_job_status
          sample_job_fields sampleEnv_def specWageValidator_def loadData_farmer farmerF_def
          checkStatusAfterWorkerAccepted_def updateJob_def patched sample_jobs_reconciled)
  have len: "acceptedLength (jobB\<lparr>requiredWorkers := Num 1\<rparr>) = 2"
    by (simp add: acceptedLength_def sample_job_fields)
  have after: "\<not> I2 (jobB\<lparr>requiredWorkers := Num 1\<rparr>)"
    by (simp add: I2_def len)
  from store apps before count saved len after show ?thesis
    by simp
qed

end
